theory Spec2Isabelle
  imports Complex_Main
begin

section \<open>Numbers of the program\<close>

text \<open>
  The propagators of \<^verbatim>\<open>orbital_dynamics.py\<close> compute with Python floats and
  \<^verbatim>\<open>numpy.float64\<close> scalars. A value of either kind is modelled as a real number
  or one of the three IEEE special values. Arithmetic on the reals is exact: rounding,
  overflow and underflow of the 64-bit format are outside this model. What the model does
  keep is the behaviour of the special values, because the source never tests a divisor:
  a numpy division by zero returns an infinity or NaN (with a warning, not an
  exception), and NaN propagates through every later operation. Zero has no sign in the
  model; a zero divisor is read as +0.0, the only zero \<^verbatim>\<open>np.sqrt\<close> of a sum of
  squares and its cube can produce.
\<close>

datatype flt = Fin real | PInf | NInf | NaN


instantiation flt :: "{one, plus, uminus, minus, times, inverse, power}"
begin

definition one_flt :: flt where
  "one_flt = Fin 1"

fun plus_flt :: "flt \<Rightarrow> flt \<Rightarrow> flt" where
  "plus_flt NaN y = NaN"
| "plus_flt x NaN = NaN"
| "plus_flt (Fin a) (Fin b) = Fin (a + b)"
| "plus_flt (Fin a) y = y"
| "plus_flt x (Fin b) = x"
| "plus_flt PInf PInf = PInf"
| "plus_flt NInf NInf = NInf"
| "plus_flt PInf NInf = NaN"
| "plus_flt NInf PInf = NaN"

fun uminus_flt :: "flt \<Rightarrow> flt" where
  "uminus_flt (Fin a) = Fin (- a)"
| "uminus_flt PInf = NInf"
| "uminus_flt NInf = PInf"
| "uminus_flt NaN = NaN"

definition minus_flt :: "flt \<Rightarrow> flt \<Rightarrow> flt" where
  "minus_flt x y = x + (- y)"

fun times_flt :: "flt \<Rightarrow> flt \<Rightarrow> flt" where
  "times_flt NaN y = NaN"
| "times_flt x NaN = NaN"
| "times_flt (Fin a) (Fin b) = Fin (a * b)"
| "times_flt (Fin a) PInf = (if a = 0 then NaN else if 0 < a then PInf else NInf)"
| "times_flt (Fin a) NInf = (if a = 0 then NaN else if 0 < a then NInf else PInf)"
| "times_flt PInf (Fin b) = (if b = 0 then NaN else if 0 < b then PInf else NInf)"
| "times_flt NInf (Fin b) = (if b = 0 then NaN else if 0 < b then NInf else PInf)"
| "times_flt PInf PInf = PInf"
| "times_flt PInf NInf = NInf"
| "times_flt NInf PInf = NInf"
| "times_flt NInf NInf = PInf"

text \<open>The division of numpy scalars: a zero divisor raises nothing.\<close>

fun divide_flt :: "flt \<Rightarrow> flt \<Rightarrow> flt" where
  "divide_flt NaN y = NaN"
| "divide_flt x NaN = NaN"
| "divide_flt (Fin a) (Fin b) =
     (if b = 0 then (if a = 0 then NaN else if 0 < a then PInf else NInf)
      else Fin (a / b))"
| "divide_flt (Fin a) y = Fin 0"
| "divide_flt PInf (Fin b) = (if b < 0 then NInf else PInf)"
| "divide_flt NInf (Fin b) = (if b < 0 then PInf else NInf)"
| "divide_flt x y = NaN"

definition inverse_flt :: "flt \<Rightarrow> flt" where
  "inverse_flt x = divide (Fin 1) x"

instance ..

end

text \<open>
  \<^verbatim>\<open>x ** 2\<close> and \<^verbatim>\<open>x ** 3\<close> are the powers \<open>x ^ 2\<close> and \<open>x ^ 3\<close> of the
  multiplication above.
\<close>

text \<open>\<^verbatim>\<open>np.sqrt\<close>: NaN (and a warning) below zero.\<close>

fun np_sqrt :: "flt \<Rightarrow> flt" where
  "np_sqrt (Fin a) = (if a < 0 then NaN else Fin (sqrt a))"
| "np_sqrt PInf = PInf"
| "np_sqrt NInf = NaN"
| "np_sqrt NaN = NaN"

section \<open>Errors\<close>

text \<open>
  The exceptions the modelled code can raise: \<^verbatim>\<open>ValueError\<close> when a state does not
  unpack into the expected number of variables, \<^verbatim>\<open>ZeroDivisionError\<close> when a Python
  float is divided by zero, and whatever the integrator raises.
\<close>

datatype error = ValueError | ZeroDivisionError | SolverError

text \<open>The division \<^verbatim>\<open>/\<close> of Python floats, as the propagators' own lines use it.\<close>

definition py_truediv :: "flt \<Rightarrow> flt \<Rightarrow> error + flt" where
  "py_truediv x y = (if y = Fin 0 then Inl ZeroDivisionError else Inr (x / y))"

section \<open>The three derivative functions\<close>

text \<open>
  Each propagator defines a closure \<^verbatim>\<open>differential_system(t, s)\<close> over the constants
  it has computed; the closures are named after their propagators here, and the captured
  constants are their first arguments.
\<close>

type_synonym derivative = "flt \<Rightarrow> flt list \<Rightarrow> error + flt list"

fun two_body_differential_system :: "flt \<Rightarrow> flt \<Rightarrow> derivative" where
  "two_body_differential_system mu_1 mu_2 t
      [x_1, y_1, z_1, vx_1, vy_1, vz_1, x_2, y_2, z_2, vx_2, vy_2, vz_2] =
     (let r = np_sqrt ((x_2 - x_1) ^ 2 + (y_2 - y_1) ^ 2 + (z_2 - z_1) ^ 2) in
      Inr [
        vx_1,
        vy_1,
        vz_1,
        mu_2 * (x_2 - x_1) / r ^ 3,
        mu_2 * (y_2 - y_1) / r ^ 3,
        mu_2 * (z_2 - z_1) / r ^ 3,
        vx_2,
        vy_2,
        vz_2,
        mu_1 * (x_1 - x_2) / r ^ 3,
        mu_1 * (y_1 - y_2) / r ^ 3,
        mu_1 * (z_1 - z_2) / r ^ 3
      ])"
| "two_body_differential_system mu_1 mu_2 t s = Inl ValueError"

fun three_body_cr_differential_system ::
  "flt \<Rightarrow> flt \<Rightarrow> flt \<Rightarrow> flt \<Rightarrow> flt \<Rightarrow> flt \<Rightarrow> derivative" where
  "three_body_cr_differential_system mu_1 mu_2 pi_1 pi_2 omega r_12 t
      [x, y, z, v_x, v_y, v_z] =
     (let r_1 = np_sqrt ((x + pi_2 * r_12) ^ 2 + y ^ 2 + z ^ 2);
          r_2 = np_sqrt ((x - pi_1 * r_12) ^ 2 + y ^ 2 + z ^ 2) in
      Inr [
        v_x,
        v_y,
        v_z,
        Fin 2 * omega * v_y + x * omega ^ 2 - (mu_1 / r_1 ^ 3) * (x + pi_2 * r_12)
          - (mu_2 / r_2 ^ 3) * (x - pi_1 * r_12),
        Fin (- 2) * omega * v_x + y * omega ^ 2 - (mu_1 / r_1 ^ 3) * y - (mu_2 / r_2 ^ 3) * y,
        - (mu_1 / r_1 ^ 3) * z - (mu_2 / r_2 ^ 3) * z
      ])"
| "three_body_cr_differential_system mu_1 mu_2 pi_1 pi_2 omega r_12 t s = Inl ValueError"

fun three_body_differential_system :: "flt \<Rightarrow> flt \<Rightarrow> flt \<Rightarrow> derivative" where
  "three_body_differential_system mu_1 mu_2 mu_3 t
      [x_1, y_1, z_1, vx_1, vy_1, vz_1, x_2, y_2, z_2, vx_2, vy_2, vz_2,
       x_3, y_3, z_3, vx_3, vy_3, vz_3] =
     (let r_12 = np_sqrt ((x_2 - x_1) ^ 2 + (y_2 - y_1) ^ 2 + (z_2 - z_1) ^ 2);
          r_13 = np_sqrt ((x_3 - x_1) ^ 2 + (y_3 - y_1) ^ 2 + (z_3 - z_1) ^ 2);
          r_32 = np_sqrt ((x_3 - x_2) ^ 2 + (y_3 - y_2) ^ 2 + (z_3 - z_2) ^ 2) in
      Inr [
        vx_1,
        vy_1,
        vz_1,
        mu_2 * (x_2 - x_1) / r_12 ^ 3 + mu_3 * (x_3 - x_1) / r_13 ^ 3,
        mu_2 * (y_2 - y_1) / r_12 ^ 3 + mu_3 * (y_3 - y_1) / r_13 ^ 3,
        mu_2 * (z_2 - z_1) / r_12 ^ 3 + mu_3 * (z_3 - z_1) / r_13 ^ 3,
        vx_2,
        vy_2,
        vz_2,
        mu_1 * (x_1 - x_2) / r_12 ^ 3 + mu_3 * (x_3 - x_2) / r_32 ^ 3,
        mu_1 * (y_1 - y_2) / r_12 ^ 3 + mu_3 * (y_3 - y_2) / r_32 ^ 3,
        mu_1 * (z_1 - z_2) / r_12 ^ 3 + mu_3 * (z_3 - z_2) / r_32 ^ 3,
        vx_3,
        vy_3,
        vz_3,
        mu_1 * (x_1 - x_3) / r_13 ^ 3 + mu_2 * (x_2 - x_3) / r_32 ^ 3,
        mu_1 * (y_1 - y_3) / r_13 ^ 3 + mu_2 * (y_2 - y_3) / r_32 ^ 3,
        mu_1 * (z_1 - z_3) / r_13 ^ 3 + mu_2 * (z_2 - z_3) / r_32 ^ 3
      ])"
| "three_body_differential_system mu_1 mu_2 mu_3 t s = Inl ValueError"

section \<open>The three propagators\<close>

text \<open>
  A propagator computes its constants and calls \<^verbatim>\<open>rk_45\<close> of the module
  \<^verbatim>\<open>solve_ode_ivp\<close>, a module outside the two files modelled here. The integrator
  is therefore an argument of each propagator: every statement below holds for whatever
  \<^verbatim>\<open>rk_45\<close> does. It receives the derivative closure, the initial conditions, both
  times, the optional step size, the tolerance and \<^verbatim>\<open>beta\<close>, and returns the
  solution rows with their times, or raises.

  The dashboard passes Python floats, so the three divisions on the restricted
  propagator's own lines are Python divisions, which raise on a zero divisor.
\<close>

type_synonym trajectory = "flt list list \<times> flt list"

type_synonym integrator =
  "derivative \<Rightarrow> flt list \<Rightarrow> flt \<Rightarrow> flt \<Rightarrow> flt option \<Rightarrow> flt \<Rightarrow> flt \<Rightarrow> error + trajectory"


definition three_body_cr_propagator ::
  "integrator \<Rightarrow> flt \<Rightarrow> flt \<Rightarrow> flt \<Rightarrow> flt \<Rightarrow> flt \<Rightarrow> flt list \<Rightarrow> flt \<Rightarrow> flt option \<Rightarrow> flt
     \<Rightarrow> flt \<Rightarrow> error + trajectory" where
  "three_body_cr_propagator rk_45 t_init t_final mass_1 mass_2 r_12 initial_conditions
      grav_constant step_size tolerance beta =
     (let mu_1 = grav_constant * mass_1;
          mu_2 = grav_constant * mass_2 in
      case py_truediv mass_1 (mass_1 + mass_2) of
        Inl e \<Rightarrow> Inl e
      | Inr pi_1 \<Rightarrow>
     (case py_truediv mass_2 (mass_1 + mass_2) of
        Inl e \<Rightarrow> Inl e
      | Inr pi_2 \<Rightarrow>
     (case py_truediv (grav_constant * (mass_1 + mass_2)) (r_12 ^ 3) of
        Inl e \<Rightarrow> Inl e
      | Inr q \<Rightarrow>
          let omega = np_sqrt q;
              differential_system =
                three_body_cr_differential_system mu_1 mu_2 pi_1 pi_2 omega r_12 in
          rk_45 differential_system initial_conditions t_init t_final step_size
            tolerance beta)))"


section \<open>Notions used to state the properties\<close>

text \<open>
  The distance between two positions, as every derivative function computes it from the
  coordinates: \<^verbatim>\<open>sqrt((x_b - x_a)**2 + (y_b - y_a)**2 + (z_b - z_a)**2)\<close>.
\<close>

definition separation :: "real \<Rightarrow> real \<Rightarrow> real \<Rightarrow> real \<Rightarrow> real \<Rightarrow> real \<Rightarrow> real" where
  "separation x_a y_a z_a x_b y_b z_b =
     sqrt ((x_b - x_a)\<^sup>2 + (y_b - y_a)\<^sup>2 + (z_b - z_a)\<^sup>2)"


text \<open>
  The acceleration of the restricted model as the sentence of C4 words it, on real
  numbers: the centrifugal term is the whole position times \<open>omega\<^sup>2\<close>, the Coriolis
  term couples \<open>v_x\<close> and \<open>v_y\<close>, and the pull towards each primary is subtracted. It
  is compared with the source's derivative below; nothing else uses it.
\<close>

definition stated_cr_acceleration ::
  "real \<Rightarrow> real \<Rightarrow> real \<Rightarrow> real \<Rightarrow> real \<Rightarrow> real \<Rightarrow> real \<Rightarrow> real \<Rightarrow> real \<Rightarrow> real \<Rightarrow> real \<Rightarrow> real
     \<Rightarrow> real \<times> real \<times> real" where
  "stated_cr_acceleration mu_1 mu_2 pi_1 pi_2 omega r_12 x y z v_x v_y v_z =
     (let r_1 = separation (- (pi_2 * r_12)) 0 0 x y z;
          r_2 = separation (pi_1 * r_12) 0 0 x y z in
      (x * omega\<^sup>2 + 2 * omega * v_y
         - mu_1 / r_1 ^ 3 * (x + pi_2 * r_12) - mu_2 / r_2 ^ 3 * (x - pi_1 * r_12),
       y * omega\<^sup>2 - 2 * omega * v_x - mu_1 / r_1 ^ 3 * y - mu_2 / r_2 ^ 3 * y,
       z * omega\<^sup>2 - mu_1 / r_1 ^ 3 * z - mu_2 / r_2 ^ 3 * z))"

section \<open>Arithmetic of the model\<close>

lemma flt_mult_one [simp]: "x * (1::flt) = x"
  by (cases x) (simp_all add: one_flt_def)

lemma flt_power2: "(x::flt) ^ 2 = x * x"
  by (simp add: numeral_2_eq_2)


lemma Fin_power [simp]: "Fin a ^ n = Fin (a ^ n)"
  by (induction n) (simp_all add: one_flt_def)

lemma Fin_minus [simp]: "Fin a - Fin b = Fin (a - b)"
  by (simp add: minus_flt_def)


text \<open>NaN propagates, and a zero numerator over a zero divisor is NaN.\<close>

lemma flt_plus_NaN [simp]: "x + NaN = NaN"
  by (cases x) simp_all

lemma flt_minus_NaN [simp]: "x - NaN = NaN" "NaN - x = NaN"
  by (simp_all add: minus_flt_def)

lemma flt_times_NaN [simp]: "x * NaN = NaN"
  by (cases x) simp_all

lemma flt_divide_NaN [simp]: "x / NaN = NaN"
  by (cases x) simp_all

lemma flt_zero_over_zero [simp]: "x * Fin 0 / Fin 0 = NaN"
  by (cases x) simp_all

lemma flt_over_zero_times_zero [simp]:
  "x / Fin 0 * Fin 0 = NaN" "- (x / Fin 0) * Fin 0 = NaN"
  by (cases x; simp)+

text \<open>Sums of three squares, the argument of every square root in the source.\<close>

lemma sum_squares_not_neg [simp]: "\<not> (a::real)\<^sup>2 + b\<^sup>2 + c\<^sup>2 < 0"
  by (simp add: not_less)

lemma sum_squares_eq_0_iff [simp]:
  "(a::real)\<^sup>2 + b\<^sup>2 + c\<^sup>2 = 0 \<longleftrightarrow> a = 0 \<and> b = 0 \<and> c = 0"
proof -
  have "(a\<^sup>2 + b\<^sup>2) + c\<^sup>2 = 0 \<longleftrightarrow> a\<^sup>2 + b\<^sup>2 = 0 \<and> c\<^sup>2 = 0"
    by (rule add_nonneg_eq_0_iff) simp_all
  then show ?thesis
    by (simp add: sum_power2_eq_zero_iff)
qed

lemma sqrt_9 [simp]: "sqrt 9 = 3"
  by (rule real_sqrt_unique) simp_all

lemma sqrt_16 [simp]: "sqrt 16 = 4"
  by (rule real_sqrt_unique) simp_all

lemma sqrt_25 [simp]: "sqrt 25 = 5"
  by (rule real_sqrt_unique) simp_all

section \<open>Evaluating the derivative functions\<close>

subsection \<open>Away from the singularities\<close>

text \<open>
  On a state of real numbers whose separations are not zero, with real constants, every
  operation of a derivative function stays on the reals.
\<close>

lemma two_body_eval:
  assumes "separation x_1 y_1 z_1 x_2 y_2 z_2 \<noteq> 0"
  shows "two_body_differential_system (Fin mu_1) (Fin mu_2) t
           [Fin x_1, Fin y_1, Fin z_1, Fin vx_1, Fin vy_1, Fin vz_1,
            Fin x_2, Fin y_2, Fin z_2, Fin vx_2, Fin vy_2, Fin vz_2] =
         Inr [Fin vx_1, Fin vy_1, Fin vz_1,
              Fin (mu_2 * (x_2 - x_1) / separation x_1 y_1 z_1 x_2 y_2 z_2 ^ 3),
              Fin (mu_2 * (y_2 - y_1) / separation x_1 y_1 z_1 x_2 y_2 z_2 ^ 3),
              Fin (mu_2 * (z_2 - z_1) / separation x_1 y_1 z_1 x_2 y_2 z_2 ^ 3),
              Fin vx_2, Fin vy_2, Fin vz_2,
              Fin (mu_1 * (x_1 - x_2) / separation x_1 y_1 z_1 x_2 y_2 z_2 ^ 3),
              Fin (mu_1 * (y_1 - y_2) / separation x_1 y_1 z_1 x_2 y_2 z_2 ^ 3),
              Fin (mu_1 * (z_1 - z_2) / separation x_1 y_1 z_1 x_2 y_2 z_2 ^ 3)]"
  using assms by (simp add: separation_def Let_def)

lemma cr_eval:
  assumes "separation (- (pi_2 * r_12)) 0 0 x y z \<noteq> 0"
    and "separation (pi_1 * r_12) 0 0 x y z \<noteq> 0"
  shows "three_body_cr_differential_system (Fin mu_1) (Fin mu_2) (Fin pi_1) (Fin pi_2)
           (Fin omega) (Fin r_12) t [Fin x, Fin y, Fin z, Fin v_x, Fin v_y, Fin v_z] =
         Inr [Fin v_x, Fin v_y, Fin v_z,
              Fin (2 * omega * v_y + x * omega\<^sup>2
                   - mu_1 / separation (- (pi_2 * r_12)) 0 0 x y z ^ 3 * (x + pi_2 * r_12)
                   - mu_2 / separation (pi_1 * r_12) 0 0 x y z ^ 3 * (x - pi_1 * r_12)),
              Fin (- 2 * omega * v_x + y * omega\<^sup>2
                   - mu_1 / separation (- (pi_2 * r_12)) 0 0 x y z ^ 3 * y
                   - mu_2 / separation (pi_1 * r_12) 0 0 x y z ^ 3 * y),
              Fin (- (mu_1 / separation (- (pi_2 * r_12)) 0 0 x y z ^ 3) * z
                   - mu_2 / separation (pi_1 * r_12) 0 0 x y z ^ 3 * z)]"
  using assms by (simp add: separation_def Let_def)

lemma three_body_eval:
  assumes "separation x_1 y_1 z_1 x_2 y_2 z_2 \<noteq> 0"
    and "separation x_1 y_1 z_1 x_3 y_3 z_3 \<noteq> 0"
    and "separation x_2 y_2 z_2 x_3 y_3 z_3 \<noteq> 0"
  shows "three_body_differential_system (Fin mu_1) (Fin mu_2) (Fin mu_3) t
           [Fin x_1, Fin y_1, Fin z_1, Fin vx_1, Fin vy_1, Fin vz_1,
            Fin x_2, Fin y_2, Fin z_2, Fin vx_2, Fin vy_2, Fin vz_2,
            Fin x_3, Fin y_3, Fin z_3, Fin vx_3, Fin vy_3, Fin vz_3] =
         Inr [Fin vx_1, Fin vy_1, Fin vz_1,
              Fin (mu_2 * (x_2 - x_1) / separation x_1 y_1 z_1 x_2 y_2 z_2 ^ 3
                   + mu_3 * (x_3 - x_1) / separation x_1 y_1 z_1 x_3 y_3 z_3 ^ 3),
              Fin (mu_2 * (y_2 - y_1) / separation x_1 y_1 z_1 x_2 y_2 z_2 ^ 3
                   + mu_3 * (y_3 - y_1) / separation x_1 y_1 z_1 x_3 y_3 z_3 ^ 3),
              Fin (mu_2 * (z_2 - z_1) / separation x_1 y_1 z_1 x_2 y_2 z_2 ^ 3
                   + mu_3 * (z_3 - z_1) / separation x_1 y_1 z_1 x_3 y_3 z_3 ^ 3),
              Fin vx_2, Fin vy_2, Fin vz_2,
              Fin (mu_1 * (x_1 - x_2) / separation x_1 y_1 z_1 x_2 y_2 z_2 ^ 3
                   + mu_3 * (x_3 - x_2) / separation x_2 y_2 z_2 x_3 y_3 z_3 ^ 3),
              Fin (mu_1 * (y_1 - y_2) / separation x_1 y_1 z_1 x_2 y_2 z_2 ^ 3
                   + mu_3 * (y_3 - y_2) / separation x_2 y_2 z_2 x_3 y_3 z_3 ^ 3),
              Fin (mu_1 * (z_1 - z_2) / separation x_1 y_1 z_1 x_2 y_2 z_2 ^ 3
                   + mu_3 * (z_3 - z_2) / separation x_2 y_2 z_2 x_3 y_3 z_3 ^ 3),
              Fin vx_3, Fin vy_3, Fin vz_3,
              Fin (mu_1 * (x_1 - x_3) / separation x_1 y_1 z_1 x_3 y_3 z_3 ^ 3
                   + mu_2 * (x_2 - x_3) / separation x_2 y_2 z_2 x_3 y_3 z_3 ^ 3),
              Fin (mu_1 * (y_1 - y_3) / separation x_1 y_1 z_1 x_3 y_3 z_3 ^ 3
                   + mu_2 * (y_2 - y_3) / separation x_2 y_2 z_2 x_3 y_3 z_3 ^ 3),
              Fin (mu_1 * (z_1 - z_3) / separation x_1 y_1 z_1 x_3 y_3 z_3 ^ 3
                   + mu_2 * (z_2 - z_3) / separation x_2 y_2 z_2 x_3 y_3 z_3 ^ 3)]"
  using assms by (simp add: separation_def Let_def)

subsection \<open>At the singularities\<close>

text \<open>
  Where two positions coincide, the square root is zero and so is its cube. The
  quotient \<^verbatim>\<open>mu * 0 / 0\<close> of the inertial models and the product
  \<^verbatim>\<open>(mu / 0) * 0\<close> of the restricted model are NaN whatever the other values are,
  velocities and constants included.
\<close>

lemma two_body_singular:
  "two_body_differential_system mu_1 mu_2 t
     [Fin x, Fin y, Fin z, vx_1, vy_1, vz_1, Fin x, Fin y, Fin z, vx_2, vy_2, vz_2] =
   Inr [vx_1, vy_1, vz_1, NaN, NaN, NaN, vx_2, vy_2, vz_2, NaN, NaN, NaN]"
  by (simp add: Let_def)

lemma cr_singular_1:
  "three_body_cr_differential_system mu_1 mu_2 pi_1 (Fin p_2) omega (Fin d) t
     [Fin (- (p_2 * d)), Fin 0, Fin 0, v_x, v_y, v_z] =
   Inr [v_x, v_y, v_z, NaN, NaN, NaN]"
  by (simp add: Let_def)

lemma cr_singular_2:
  "three_body_cr_differential_system mu_1 mu_2 (Fin p_1) pi_2 omega (Fin d) t
     [Fin (p_1 * d), Fin 0, Fin 0, v_x, v_y, v_z] =
   Inr [v_x, v_y, v_z, NaN, NaN, NaN]"
  by (simp add: Let_def)

lemma three_body_singular_12:
  "\<exists>a_x a_y a_z. three_body_differential_system mu_1 mu_2 mu_3 t
     [Fin x, Fin y, Fin z, vx_1, vy_1, vz_1, Fin x, Fin y, Fin z, vx_2, vy_2, vz_2,
      x_3, y_3, z_3, vx_3, vy_3, vz_3] =
   Inr [vx_1, vy_1, vz_1, NaN, NaN, NaN, vx_2, vy_2, vz_2, NaN, NaN, NaN,
        vx_3, vy_3, vz_3, a_x, a_y, a_z]"
  by (simp add: Let_def)

lemma three_body_singular_13:
  "\<exists>a_x a_y a_z. three_body_differential_system mu_1 mu_2 mu_3 t
     [Fin x, Fin y, Fin z, vx_1, vy_1, vz_1, x_2, y_2, z_2, vx_2, vy_2, vz_2,
      Fin x, Fin y, Fin z, vx_3, vy_3, vz_3] =
   Inr [vx_1, vy_1, vz_1, NaN, NaN, NaN, vx_2, vy_2, vz_2, a_x, a_y, a_z,
        vx_3, vy_3, vz_3, NaN, NaN, NaN]"
  by (simp add: Let_def)

lemma three_body_singular_23:
  "\<exists>a_x a_y a_z. three_body_differential_system mu_1 mu_2 mu_3 t
     [x_1, y_1, z_1, vx_1, vy_1, vz_1, Fin x, Fin y, Fin z, vx_2, vy_2, vz_2,
      Fin x, Fin y, Fin z, vx_3, vy_3, vz_3] =
   Inr [vx_1, vy_1, vz_1, a_x, a_y, a_z, vx_2, vy_2, vz_2, NaN, NaN, NaN,
        vx_3, vy_3, vz_3, NaN, NaN, NaN]"
  by (simp add: Let_def)

text \<open>
  From here on the derivative functions are evaluated through the lemmas above; their
  defining equations are used by name where a concrete state is computed.
\<close>

declare two_body_differential_system.simps [simp del]
declare three_body_cr_differential_system.simps [simp del]
declare three_body_differential_system.simps [simp del]

subsection \<open>The constants the restricted propagator computes\<close>

text \<open>
  With real masses whose sum is not zero, a real nonzero \<open>r_12\<close> and a nonnegative
  \<open>grav_constant * (mass_1 + mass_2) / r_12 ** 3\<close>, the closure handed to
  \<^verbatim>\<open>rk_45\<close> has real constants, so the lemmas on real constants are about the
  closures the propagator builds.
\<close>

lemma cr_propagator_constants:
  assumes "mass_1 + mass_2 \<noteq> 0" and "r_12 \<noteq> 0"
    and "0 \<le> grav_constant * (mass_1 + mass_2) / r_12 ^ 3"
  shows "three_body_cr_propagator rk_45 t_init t_final (Fin mass_1) (Fin mass_2) (Fin r_12)
           ic (Fin grav_constant) step tol beta =
         rk_45 (three_body_cr_differential_system
                  (Fin (grav_constant * mass_1)) (Fin (grav_constant * mass_2))
                  (Fin (mass_1 / (mass_1 + mass_2))) (Fin (mass_2 / (mass_1 + mass_2)))
                  (Fin (sqrt (grav_constant * (mass_1 + mass_2) / r_12 ^ 3))) (Fin r_12))
           ic t_init t_final step tol beta"
  using assms by (simp add: three_body_cr_propagator_def py_truediv_def Let_def not_less)

text \<open>
  The mean motion \<open>omega\<close> is zero only if \<open>grav_constant * (mass_1 + mass_2)\<close>
  is. With \<open>grav_constant = 0\<close>, \<open>mass_1 = 1\<close>, \<open>mass_2 = 0\<close> and \<open>r_12 = 1\<close> the
  propagator builds the closure with \<open>omega = 0\<close>, \<open>pi_2 = 0\<close>, \<open>pi_1 = 1\<close> and
  \<open>mu_1 = mu_2 = 0\<close>.
\<close>

lemma cr_constants_without_gravity:
  "three_body_cr_propagator rk_45 t_init t_final (Fin 1) (Fin 0) (Fin 1) ic (Fin 0)
     step tol beta =
   rk_45 (three_body_cr_differential_system (Fin 0) (Fin 0) (Fin 1) (Fin 0) (Fin 0) (Fin 1))
     ic t_init t_final step tol beta"
  by (simp add: three_body_cr_propagator_def py_truediv_def Let_def)

section \<open>Input validation (C1)\<close>




section \<open>Zero separations (C2)\<close>

text \<open>
  C2 as stated: evaluating a derivative function where a required separation is exactly
  zero raises a singularity error and never returns NaN or an infinity. No derivative
  function raises anything there. With both bodies of the two-body model at the origin
  and \<open>mu_1 = mu_2 = 1\<close>, the function returns a vector whose six acceleration
  components are NaN.
\<close>

theorem two_body_derivative_nan_at_collision:
  "two_body_differential_system (Fin 1) (Fin 1) (Fin 0)
     [Fin 0, Fin 0, Fin 0, Fin 0, Fin 0, Fin 0, Fin 0, Fin 0, Fin 0, Fin 0, Fin 0, Fin 0] =
   Inr [Fin 0, Fin 0, Fin 0, NaN, NaN, NaN, Fin 0, Fin 0, Fin 0, NaN, NaN, NaN]"
  by (simp add: two_body_differential_system.simps Let_def)

text \<open>
  C2, amended: for every force-model variant, evaluating the derivative function at a
  state where a required separation is exactly zero raises no error. The function
  returns a vector of the state dimension; the velocities are passed through, and every
  acceleration component that divides by the zero separation is NaN: both bodies'
  accelerations in the two-body model, the whole acceleration at either primary of the
  restricted model, and the accelerations of the two coincident bodies in the general
  three-body model. This holds for all constants, velocities and remaining coordinates.
\<close>

theorem derivatives_nan_at_zero_separation:
  "two_body_differential_system mu_1 mu_2 t
     [Fin x, Fin y, Fin z, vx_1, vy_1, vz_1, Fin x, Fin y, Fin z, vx_2, vy_2, vz_2] =
   Inr [vx_1, vy_1, vz_1, NaN, NaN, NaN, vx_2, vy_2, vz_2, NaN, NaN, NaN]
   \<and> three_body_cr_differential_system mu_1 mu_2 pi_1 (Fin p_2) omega (Fin d) t
     [Fin (- (p_2 * d)), Fin 0, Fin 0, v_x, v_y, v_z] =
   Inr [v_x, v_y, v_z, NaN, NaN, NaN]
   \<and> three_body_cr_differential_system mu_1 mu_2 (Fin p_1) pi_2 omega (Fin d) t
     [Fin (p_1 * d), Fin 0, Fin 0, v_x, v_y, v_z] =
   Inr [v_x, v_y, v_z, NaN, NaN, NaN]
   \<and> (\<exists>a_x a_y a_z. three_body_differential_system mu_1 mu_2 mu_3 t
     [Fin x, Fin y, Fin z, vx_1, vy_1, vz_1, Fin x, Fin y, Fin z, vx_2, vy_2, vz_2,
      x_3, y_3, z_3, vx_3, vy_3, vz_3] =
   Inr [vx_1, vy_1, vz_1, NaN, NaN, NaN, vx_2, vy_2, vz_2, NaN, NaN, NaN,
        vx_3, vy_3, vz_3, a_x, a_y, a_z])
   \<and> (\<exists>a_x a_y a_z. three_body_differential_system mu_1 mu_2 mu_3 t
     [Fin x, Fin y, Fin z, vx_1, vy_1, vz_1, x_2, y_2, z_2, vx_2, vy_2, vz_2,
      Fin x, Fin y, Fin z, vx_3, vy_3, vz_3] =
   Inr [vx_1, vy_1, vz_1, NaN, NaN, NaN, vx_2, vy_2, vz_2, a_x, a_y, a_z,
        vx_3, vy_3, vz_3, NaN, NaN, NaN])
   \<and> (\<exists>a_x a_y a_z. three_body_differential_system mu_1 mu_2 mu_3 t
     [x_1, y_1, z_1, vx_1, vy_1, vz_1, Fin x, Fin y, Fin z, vx_2, vy_2, vz_2,
      Fin x, Fin y, Fin z, vx_3, vy_3, vz_3] =
   Inr [vx_1, vy_1, vz_1, a_x, a_y, a_z, vx_2, vy_2, vz_2, NaN, NaN, NaN,
        vx_3, vy_3, vz_3, NaN, NaN, NaN])"
  using two_body_singular cr_singular_1 cr_singular_2
    three_body_singular_12 three_body_singular_13 three_body_singular_23
  by (intro conjI) blast+

section \<open>The two-body derivative (C3)\<close>

text \<open>
  C3: for every 12-component two-body state with nonzero separation
  \<open>r = |pos2 - pos1|\<close>, the derivative passes the velocities through unchanged into the
  position slots and sets body 1's acceleration to \<open>mu_2 (pos2 - pos1) / r\<^sup>3\<close> and body 2's
  to \<open>mu_1 (pos1 - pos2) / r\<^sup>3\<close>, where \<open>mu_i = grav_constant * mass_i\<close>.
\<close>

theorem two_body_derivative_formula:
  assumes "separation x_1 y_1 z_1 x_2 y_2 z_2 \<noteq> 0"
  shows "two_body_differential_system (Fin grav_constant * Fin mass_1)
           (Fin grav_constant * Fin mass_2) t
           [Fin x_1, Fin y_1, Fin z_1, Fin vx_1, Fin vy_1, Fin vz_1,
            Fin x_2, Fin y_2, Fin z_2, Fin vx_2, Fin vy_2, Fin vz_2] =
         Inr [Fin vx_1, Fin vy_1, Fin vz_1,
              Fin (grav_constant * mass_2 * (x_2 - x_1)
                   / separation x_1 y_1 z_1 x_2 y_2 z_2 ^ 3),
              Fin (grav_constant * mass_2 * (y_2 - y_1)
                   / separation x_1 y_1 z_1 x_2 y_2 z_2 ^ 3),
              Fin (grav_constant * mass_2 * (z_2 - z_1)
                   / separation x_1 y_1 z_1 x_2 y_2 z_2 ^ 3),
              Fin vx_2, Fin vy_2, Fin vz_2,
              Fin (grav_constant * mass_1 * (x_1 - x_2)
                   / separation x_1 y_1 z_1 x_2 y_2 z_2 ^ 3),
              Fin (grav_constant * mass_1 * (y_1 - y_2)
                   / separation x_1 y_1 z_1 x_2 y_2 z_2 ^ 3),
              Fin (grav_constant * mass_1 * (z_1 - z_2)
                   / separation x_1 y_1 z_1 x_2 y_2 z_2 ^ 3)]"
  using two_body_eval [OF assms] by simp

theorem two_body_derivative_formula_witness:
  "separation 0 0 0 2 0 0 \<noteq> 0 \<and>
   two_body_differential_system (Fin 1 * Fin 8) (Fin 1 * Fin 16) (Fin 0)
     [Fin 0, Fin 0, Fin 0, Fin 1, Fin 2, Fin 3, Fin 2, Fin 0, Fin 0, Fin 4, Fin 5, Fin 6] =
   Inr [Fin 1, Fin 2, Fin 3, Fin 4, Fin 0, Fin 0, Fin 4, Fin 5, Fin 6, Fin (- 2), Fin 0, Fin 0]"
  using two_body_derivative_formula [of 0 0 0 2 0 0 1 8 16 "Fin 0" 1 2 3 4 5 6]
  by (simp add: separation_def)

section \<open>The restricted three-body derivative (C4)\<close>

text \<open>
  C4 as stated: the acceleration is the centrifugal term (position times \<open>omega\<^sup>2\<close>) plus
  the Coriolis term minus the pulls towards the primaries. The source adds
  \<open>x * omega\<^sup>2\<close> and \<open>y * omega\<^sup>2\<close> to the \<open>x\<close> and \<open>y\<close> components only; its
  \<open>z\<close> component has no centrifugal term. With two primaries of
  \<open>mu = 256\<close> at \<open>x = -4\<close> and \<open>x = 4\<close>, \<open>omega = 1\<close> and the body at rest at
  \<open>(0, 0, 3)\<close>, both distances are 5: the source's vertical acceleration is
  \<open>- 1536 / 125\<close>, the stated one is \<open>3 - 1536 / 125\<close>.
\<close>

theorem cr_vertical_acceleration_without_centrifugal_term:
  "three_body_cr_differential_system (Fin 256) (Fin 256) (Fin (1 / 2)) (Fin (1 / 2))
     (Fin 1) (Fin 8) (Fin 0) [Fin 0, Fin 0, Fin 3, Fin 0, Fin 0, Fin 0] =
   Inr [Fin 0, Fin 0, Fin 0, Fin 0, Fin 0, Fin (- (1536 / 125))]
   \<and> stated_cr_acceleration 256 256 (1 / 2) (1 / 2) 1 8 0 0 3 0 0 0 = (0, 0, - (1161 / 125))"
  by (simp add: three_body_cr_differential_system.simps Let_def
      stated_cr_acceleration_def separation_def)

text \<open>
  C4, amended: for every 6-component state of the restricted model with both distances
  \<open>r_1\<close> (to the primary at \<open>x = - pi_2 r_12\<close>) and \<open>r_2\<close> (to the primary at
  \<open>x = pi_1 r_12\<close>) nonzero, the velocities are passed through and the acceleration is
  the centrifugal term in the plane of rotation, \<open>(x omega\<^sup>2, y omega\<^sup>2, 0)\<close>, plus the
  Coriolis term \<open>(2 omega v_y, - 2 omega v_x, 0)\<close>, minus the pulls
  \<open>mu_i / r_i\<^sup>3\<close> times the offset from each primary.
\<close>

theorem cr_derivative_formula:
  assumes "separation (- (pi_2 * r_12)) 0 0 x y z \<noteq> 0"
    and "separation (pi_1 * r_12) 0 0 x y z \<noteq> 0"
  shows "three_body_cr_differential_system (Fin mu_1) (Fin mu_2) (Fin pi_1) (Fin pi_2)
           (Fin omega) (Fin r_12) t [Fin x, Fin y, Fin z, Fin v_x, Fin v_y, Fin v_z] =
         Inr [Fin v_x, Fin v_y, Fin v_z,
              Fin (x * omega\<^sup>2 + 2 * omega * v_y
                   - mu_1 / separation (- (pi_2 * r_12)) 0 0 x y z ^ 3 * (x + pi_2 * r_12)
                   - mu_2 / separation (pi_1 * r_12) 0 0 x y z ^ 3 * (x - pi_1 * r_12)),
              Fin (y * omega\<^sup>2 - 2 * omega * v_x
                   - mu_1 / separation (- (pi_2 * r_12)) 0 0 x y z ^ 3 * y
                   - mu_2 / separation (pi_1 * r_12) 0 0 x y z ^ 3 * y),
              Fin (- (mu_1 / separation (- (pi_2 * r_12)) 0 0 x y z ^ 3 * z)
                   - mu_2 / separation (pi_1 * r_12) 0 0 x y z ^ 3 * z)]"
  using cr_eval [OF assms] by (simp add: algebra_simps)

theorem cr_derivative_formula_witness:
  "separation (- (1 / 2 * 8)) 0 0 0 0 3 \<noteq> 0 \<and> separation (1 / 2 * 8) 0 0 0 0 3 \<noteq> 0 \<and>
   three_body_cr_differential_system (Fin 256) (Fin 256) (Fin (1 / 2)) (Fin (1 / 2))
     (Fin 1) (Fin 8) (Fin 0) [Fin 0, Fin 0, Fin 3, Fin 0, Fin 0, Fin 0] =
   Inr [Fin 0, Fin 0, Fin 0, Fin 0, Fin 0, Fin (- (1536 / 125))]"
  using cr_derivative_formula [of "1 / 2" 8 0 0 3 "1 / 2" 256 256 1 "Fin 0" 0 0 0]
  by (simp add: separation_def)

section \<open>The general three-body derivative (C5)\<close>

text \<open>
  C5: for every 18-component state with all three pairwise separations nonzero, each
  body's acceleration is the sum of the pulls \<open>mu_j (pos_j - pos_i) / r_ij\<^sup>3\<close> of the
  other two bodies, and one value \<open>r_ij\<close> serves both ends of a pair.
\<close>

theorem three_body_derivative_formula:
  assumes "separation x_1 y_1 z_1 x_2 y_2 z_2 \<noteq> 0"
    and "separation x_1 y_1 z_1 x_3 y_3 z_3 \<noteq> 0"
    and "separation x_2 y_2 z_2 x_3 y_3 z_3 \<noteq> 0"
  shows "three_body_differential_system (Fin grav_constant * Fin mass_1)
           (Fin grav_constant * Fin mass_2) (Fin grav_constant * Fin mass_3) t
           [Fin x_1, Fin y_1, Fin z_1, Fin vx_1, Fin vy_1, Fin vz_1,
            Fin x_2, Fin y_2, Fin z_2, Fin vx_2, Fin vy_2, Fin vz_2,
            Fin x_3, Fin y_3, Fin z_3, Fin vx_3, Fin vy_3, Fin vz_3] =
         Inr [Fin vx_1, Fin vy_1, Fin vz_1,
              Fin (grav_constant * mass_2 * (x_2 - x_1) / separation x_1 y_1 z_1 x_2 y_2 z_2 ^ 3
                   + grav_constant * mass_3 * (x_3 - x_1) / separation x_1 y_1 z_1 x_3 y_3 z_3 ^ 3),
              Fin (grav_constant * mass_2 * (y_2 - y_1) / separation x_1 y_1 z_1 x_2 y_2 z_2 ^ 3
                   + grav_constant * mass_3 * (y_3 - y_1) / separation x_1 y_1 z_1 x_3 y_3 z_3 ^ 3),
              Fin (grav_constant * mass_2 * (z_2 - z_1) / separation x_1 y_1 z_1 x_2 y_2 z_2 ^ 3
                   + grav_constant * mass_3 * (z_3 - z_1) / separation x_1 y_1 z_1 x_3 y_3 z_3 ^ 3),
              Fin vx_2, Fin vy_2, Fin vz_2,
              Fin (grav_constant * mass_1 * (x_1 - x_2) / separation x_1 y_1 z_1 x_2 y_2 z_2 ^ 3
                   + grav_constant * mass_3 * (x_3 - x_2) / separation x_2 y_2 z_2 x_3 y_3 z_3 ^ 3),
              Fin (grav_constant * mass_1 * (y_1 - y_2) / separation x_1 y_1 z_1 x_2 y_2 z_2 ^ 3
                   + grav_constant * mass_3 * (y_3 - y_2) / separation x_2 y_2 z_2 x_3 y_3 z_3 ^ 3),
              Fin (grav_constant * mass_1 * (z_1 - z_2) / separation x_1 y_1 z_1 x_2 y_2 z_2 ^ 3
                   + grav_constant * mass_3 * (z_3 - z_2) / separation x_2 y_2 z_2 x_3 y_3 z_3 ^ 3),
              Fin vx_3, Fin vy_3, Fin vz_3,
              Fin (grav_constant * mass_1 * (x_1 - x_3) / separation x_1 y_1 z_1 x_3 y_3 z_3 ^ 3
                   + grav_constant * mass_2 * (x_2 - x_3) / separation x_2 y_2 z_2 x_3 y_3 z_3 ^ 3),
              Fin (grav_constant * mass_1 * (y_1 - y_3) / separation x_1 y_1 z_1 x_3 y_3 z_3 ^ 3
                   + grav_constant * mass_2 * (y_2 - y_3) / separation x_2 y_2 z_2 x_3 y_3 z_3 ^ 3),
              Fin (grav_constant * mass_1 * (z_1 - z_3) / separation x_1 y_1 z_1 x_3 y_3 z_3 ^ 3
                   + grav_constant * mass_2 * (z_2 - z_3) / separation x_2 y_2 z_2 x_3 y_3 z_3 ^ 3)]"
  using three_body_eval [OF assms] by simp

theorem three_body_derivative_formula_witness:
  "separation 0 0 0 3 0 0 \<noteq> 0 \<and> separation 0 0 0 0 4 0 \<noteq> 0 \<and> separation 3 0 0 0 4 0 \<noteq> 0 \<and>
   three_body_differential_system (Fin 1 * Fin 216000) (Fin 1 * Fin 216000)
     (Fin 1 * Fin 216000) (Fin 0)
     [Fin 0, Fin 0, Fin 0, Fin 1, Fin 2, Fin 3, Fin 3, Fin 0, Fin 0, Fin 4, Fin 5, Fin 6,
      Fin 0, Fin 4, Fin 0, Fin 7, Fin 8, Fin 9] =
   Inr [Fin 1, Fin 2, Fin 3, Fin 24000, Fin 13500, Fin 0,
        Fin 4, Fin 5, Fin 6, Fin (- 29184), Fin 6912, Fin 0,
        Fin 7, Fin 8, Fin 9, Fin 5184, Fin (- 20412), Fin 0]"
  using three_body_derivative_formula
    [of 0 0 0 3 0 0 0 4 0 1 216000 216000 216000 "Fin 0" 1 2 3 4 5 6 7 8 9]
  by (simp add: separation_def)

section \<open>Length and finiteness of the derivative (C6)\<close>



section \<open>Linear momentum of the two-body model (C7)\<close>



section \<open>Reduction of the restricted model to Kepler motion (C8)\<close>

text \<open>
  C8 as stated: with \<open>omega = 0\<close> and \<open>pi_2 = 0\<close> (hence \<open>mu_2 = 0\<close>) the derivative
  equals \<open>[v, - mu_1 pos / |pos|\<^sup>3]\<close> at every state with nonzero distance to the
  remaining primary. The source still divides \<open>mu_2 = 0\<close> by the cube of the distance
  to the place \<open>x = pi_1 r_12\<close> of the second primary, so at that place the
  acceleration is NaN although the first primary is at distance 1. This is shown with
  \<open>mu_1 = 1\<close>, and with the constants of \<open>cr_constants_without_gravity\<close>, where the
  stated acceleration would be zero.
\<close>

theorem cr_reduction_nan_at_second_primary:
  "separation 0 0 0 1 0 0 = 1
   \<and> three_body_cr_differential_system (Fin 1) (Fin 0) (Fin 1) (Fin 0) (Fin 0) (Fin 1) (Fin 0)
       [Fin 1, Fin 0, Fin 0, Fin 0, Fin 0, Fin 0] =
     Inr [Fin 0, Fin 0, Fin 0, NaN, NaN, NaN]
   \<and> three_body_cr_differential_system (Fin 0) (Fin 0) (Fin 1) (Fin 0) (Fin 0) (Fin 1) (Fin 0)
       [Fin 1, Fin 0, Fin 0, Fin 0, Fin 0, Fin 0] =
     Inr [Fin 0, Fin 0, Fin 0, NaN, NaN, NaN]"
  by (simp add: three_body_cr_differential_system.simps Let_def separation_def)

text \<open>
  C8, amended: with \<open>omega = 0\<close>, \<open>pi_2 = 0\<close> and \<open>mu_2 = 0\<close>, for every state with
  nonzero distance to the remaining primary at the origin and nonzero distance to the
  point \<open>x = pi_1 r_12\<close> where the second primary would be, the derivative equals
  \<open>[v, - mu_1 pos / |pos|\<^sup>3]\<close>.
\<close>

theorem cr_reduces_to_kepler:
  assumes "separation 0 0 0 x y z \<noteq> 0"
    and "separation (pi_1 * r_12) 0 0 x y z \<noteq> 0"
  shows "three_body_cr_differential_system (Fin mu_1) (Fin 0) (Fin pi_1) (Fin 0) (Fin 0)
           (Fin r_12) t [Fin x, Fin y, Fin z, Fin v_x, Fin v_y, Fin v_z] =
         Inr [Fin v_x, Fin v_y, Fin v_z,
              Fin (- mu_1 * x / separation 0 0 0 x y z ^ 3),
              Fin (- mu_1 * y / separation 0 0 0 x y z ^ 3),
              Fin (- mu_1 * z / separation 0 0 0 x y z ^ 3)]"
proof -
  have "separation (- (0 * r_12)) 0 0 x y z \<noteq> 0"
    using assms(1) by simp
  from cr_eval [OF this assms(2)] show ?thesis
    by simp
qed

theorem cr_reduces_to_kepler_witness:
  "separation 0 0 0 2 0 0 \<noteq> 0 \<and> separation (1 * 5) 0 0 2 0 0 \<noteq> 0 \<and>
   three_body_cr_differential_system (Fin 8) (Fin 0) (Fin 1) (Fin 0) (Fin 0) (Fin 5) (Fin 0)
     [Fin 2, Fin 0, Fin 0, Fin 1, Fin 2, Fin 3] =
   Inr [Fin 1, Fin 2, Fin 3, Fin (- 2), Fin 0, Fin 0]"
  using cr_reduces_to_kepler [of 2 0 0 1 5 8 "Fin 0" 1 2 3]
  by (simp add: separation_def)

section \<open>A massless third body (C9)\<close>

text \<open>
  C9: when \<open>mass_3 = 0\<close>, for every 18-component state whose three pairwise
  separations are nonzero, the first 12 components of the general three-body derivative
  equal the two-body derivative of the sub-state \<open>[pos1, vel1, pos2, vel2]\<close> with the
  same \<open>mass_1\<close>, \<open>mass_2\<close> and \<open>grav_constant\<close>.
\<close>

theorem massless_third_body_decouples:
  assumes "separation x_1 y_1 z_1 x_2 y_2 z_2 \<noteq> 0"
    and "separation x_1 y_1 z_1 x_3 y_3 z_3 \<noteq> 0"
    and "separation x_2 y_2 z_2 x_3 y_3 z_3 \<noteq> 0"
  shows "\<exists>d. three_body_differential_system (Fin grav_constant * Fin mass_1)
                (Fin grav_constant * Fin mass_2) (Fin grav_constant * Fin 0) t
                [Fin x_1, Fin y_1, Fin z_1, Fin vx_1, Fin vy_1, Fin vz_1,
                 Fin x_2, Fin y_2, Fin z_2, Fin vx_2, Fin vy_2, Fin vz_2,
                 Fin x_3, Fin y_3, Fin z_3, Fin vx_3, Fin vy_3, Fin vz_3] = Inr d
             \<and> two_body_differential_system (Fin grav_constant * Fin mass_1)
                (Fin grav_constant * Fin mass_2) t'
                [Fin x_1, Fin y_1, Fin z_1, Fin vx_1, Fin vy_1, Fin vz_1,
                 Fin x_2, Fin y_2, Fin z_2, Fin vx_2, Fin vy_2, Fin vz_2] = Inr (take 12 d)"
  using three_body_eval [OF assms] two_body_eval [OF assms(1)] by simp

theorem massless_third_body_decouples_witness:
  "separation 0 0 0 3 0 0 \<noteq> 0 \<and> separation 0 0 0 0 4 0 \<noteq> 0 \<and> separation 3 0 0 0 4 0 \<noteq> 0 \<and>
   (\<exists>d. three_body_differential_system (Fin 1 * Fin 27) (Fin 1 * Fin 54) (Fin 1 * Fin 0) (Fin 0)
     [Fin 0, Fin 0, Fin 0, Fin 1, Fin 2, Fin 3, Fin 3, Fin 0, Fin 0, Fin 4, Fin 5, Fin 6,
      Fin 0, Fin 4, Fin 0, Fin 7, Fin 8, Fin 9] = Inr d
    \<and> two_body_differential_system (Fin 1 * Fin 27) (Fin 1 * Fin 54) (Fin 0)
     [Fin 0, Fin 0, Fin 0, Fin 1, Fin 2, Fin 3, Fin 3, Fin 0, Fin 0, Fin 4, Fin 5, Fin 6] =
      Inr (take 12 d)
    \<and> take 12 d = [Fin 1, Fin 2, Fin 3, Fin 6, Fin 0, Fin 0,
                    Fin 4, Fin 5, Fin 6, Fin (- 3), Fin 0, Fin 0])"
  using massless_third_body_decouples
    [of 0 0 0 3 0 0 0 4 0 1 27 54 "Fin 0" 1 2 3 4 5 6 7 8 9 "Fin 0"]
  by (simp add: separation_def two_body_differential_system.simps
      three_body_differential_system.simps Let_def)

section \<open>The plane of the primaries (C10)\<close>

text \<open>
  C10: the restricted three-body derivative preserves the planar subspace. For every
  state with \<open>z = 0\<close> and \<open>v_z = 0\<close> and both primary distances nonzero, the derivative
  has zero in the \<open>z\<close>-rate and in the \<open>z\<close>-acceleration component.
\<close>

theorem cr_plane_invariant:
  assumes "separation (- (pi_2 * r_12)) 0 0 x y 0 \<noteq> 0"
    and "separation (pi_1 * r_12) 0 0 x y 0 \<noteq> 0"
  shows "\<exists>d. three_body_cr_differential_system (Fin mu_1) (Fin mu_2) (Fin pi_1) (Fin pi_2)
                (Fin omega) (Fin r_12) t [Fin x, Fin y, Fin 0, Fin v_x, Fin v_y, Fin 0] = Inr d
             \<and> length d = 6 \<and> d ! 2 = Fin 0 \<and> d ! 5 = Fin 0"
  using cr_eval [OF assms] by simp

theorem cr_plane_invariant_witness:
  "separation (- (1 / 2 * 8)) 0 0 0 3 0 \<noteq> 0 \<and> separation (1 / 2 * 8) 0 0 0 3 0 \<noteq> 0 \<and>
   (\<exists>d. three_body_cr_differential_system (Fin 250) (Fin 250) (Fin (1 / 2)) (Fin (1 / 2))
       (Fin 1) (Fin 8) (Fin 0) [Fin 0, Fin 3, Fin 0, Fin 2, Fin 0, Fin 0] = Inr d
     \<and> length d = 6 \<and> d ! 2 = Fin 0 \<and> d ! 5 = Fin 0)"
  using cr_plane_invariant [of "1 / 2" 8 0 3 "1 / 2" 250 250 1 "Fin 0" 2 0]
  by (simp add: separation_def)

end
